theory Spec2Isabelle
  imports Complex_Main
begin

section \<open>Data model (types.ts)\<close>

text \<open>
  JavaScript numbers are modelled as mathematical reals: IEEE-754 rounding and the
  single-precision storage of \<^verbatim>\<open>Float32Array\<close> are not modelled. Loop counters
  and array indices are naturals.
\<close>

datatype TreeMorphState = SCATTERED | TREE_SHAPE

record TreeConfig =
  rotationSpeed :: real
  bloomIntensity :: real
  lightsColor :: string
  morphState :: TreeMorphState

section \<open>Library helpers used by TreeScene.tsx\<close>

text \<open>
  \<^verbatim>\<open>THREE.Vector3\<close> and \<^verbatim>\<open>THREE.Euler\<close>. The fields are called
  \<open>vx, vy, vz\<close> and \<open>ex, ey, ez\<close> here because a record field is a global constant.
\<close>

record Vector3 =
  vx :: real
  vy :: real
  vz :: real

record Euler =
  ex :: real
  ey :: real
  ez :: real

text \<open>
  \<^verbatim>\<open>THREE.MathUtils.lerp(x, y, t)\<close> is \<^verbatim>\<open>(1 - t) * x + t * y\<close>,
  \<^verbatim>\<open>THREE.MathUtils.clamp(value, min, max)\<close> is
  \<^verbatim>\<open>Math.max(min, Math.min(max, value))\<close>, and
  \<^verbatim>\<open>lerpVectors(v1, v2, alpha)\<close> sets each component to
  \<^verbatim>\<open>v1.c + (v2.c - v1.c) * alpha\<close>. These are functions of the three.js
  library, which the repository imports; they are written here as the library defines them.
\<close>

definition lerp :: "real \<Rightarrow> real \<Rightarrow> real \<Rightarrow> real" where
  "lerp x y t = (1 - t) * x + t * y"

definition clamp :: "real \<Rightarrow> real \<Rightarrow> real \<Rightarrow> real" where
  "clamp v lo hi = max lo (min hi v)"

definition lerpVectors :: "Vector3 \<Rightarrow> Vector3 \<Rightarrow> real \<Rightarrow> Vector3" where
  "lerpVectors v1 v2 alpha =
     \<lparr>vx = vx v1 + (vx v2 - vx v1) * alpha,
      vy = vy v1 + (vy v2 - vy v1) * alpha,
      vz = vz v1 + (vz v2 - vz v1) * alpha\<rparr>"

text \<open>\<^verbatim>\<open>Vector3.distanceTo\<close>: the Euclidean distance.\<close>

definition distanceTo :: "Vector3 \<Rightarrow> Vector3 \<Rightarrow> real" where
  "distanceTo a b = sqrt ((vx a - vx b)\<^sup>2 + (vy a - vy b)\<^sup>2 + (vz a - vz b)\<^sup>2)"

subsection \<open>Math.random\<close>

text \<open>
  \<^verbatim>\<open>Math.random()\<close> returns a number in the half-open interval from 0 to 1.
  A draw is a value of that interval; the generator is the stream of the draws still to
  come, and each call takes the first one.
\<close>

typedef draw = "{x::real. 0 \<le> x \<and> x < 1}"
  by (rule exI [of _ 0]) simp

setup_lifting type_definition_draw

lift_definition draw_of_ratio :: "nat \<Rightarrow> nat \<Rightarrow> draw" is
  "\<lambda>a b. if a < b then real a / real b else 0"
  by simp

type_synonym rng = "nat \<Rightarrow> draw"

definition Math_random :: "rng \<Rightarrow> real \<times> rng" where
  "Math_random g = (Rep_draw (g 0), \<lambda>k. g (Suc k))"

definition const_rng :: "draw \<Rightarrow> rng" where
  "const_rng d = (\<lambda>_. d)"

section \<open>Helper math (TreeScene.tsx, randomInSphere)\<close>

definition randomInSphere :: "real \<Rightarrow> real \<Rightarrow> rng \<Rightarrow> Vector3 \<times> rng" where
  "randomInSphere radius biasY g0 =
     (let (u, g1) = Math_random g0;
          (v, g2) = Math_random g1;
          theta = 2 * pi * u;
          phi = arccos (2 * v - 1);
          (w, g3) = Math_random g2;
          r = root 3 w * radius;
          sinPhi = sin phi
      in (\<lparr>vx = r * sinPhi * cos theta,
           vy = r * sinPhi * sin theta + biasY,
           vz = r * cos phi\<rparr>, g3))"

section \<open>Data generation (MorphingTree, useMemo)\<close>

subsection \<open>1. Foliage (points)\<close>

record Layer =
  layer_y :: real
  layer_r :: real
  layer_h :: real

definition layers :: "Layer list" where
  "layers =
     [\<lparr>layer_y = -1.0, layer_r = 2.3, layer_h = 1.5\<rparr>,
      \<lparr>layer_y = 0.2, layer_r = 1.9, layer_h = 1.5\<rparr>,
      \<lparr>layer_y = 1.4, layer_r = 1.5, layer_h = 1.5\<rparr>,
      \<lparr>layer_y = 2.5, layer_r = 1.1, layer_h = 1.2\<rparr>,
      \<lparr>layer_y = 3.4, layer_r = 0.7, layer_h = 1.0\<rparr>]"

definition foliageCount :: nat where
  "foliageCount = 8000"

text \<open>
  The four attribute arrays of the points geometry: \<open>position\<close> holds the scatter
  positions and \<open>aTargetPos\<close> the tree positions, three numbers per point.
\<close>

record Geometry =
  position :: "real list"
  aTargetPos :: "real list"
  aRandom :: "real list"
  aSize :: "real list"

record FoliageGen =
  positions :: "real list"
  targetPos :: "real list"
  randoms :: "real list"
  sizes :: "real list"
  f_rng :: rng

text \<open>One iteration of the foliage loop; the draws are taken in the order of the source.\<close>

definition foliage_body :: "nat \<Rightarrow> FoliageGen \<Rightarrow> FoliageGen" where
  "foliage_body i st =
     (let (sPos, g1) = randomInSphere 8 2 (f_rng st);
          positions' = positions st @ [vx sPos, vy sPos, vz sPos];
          (u1, g2) = Math_random g1;
          layer = layers ! nat \<lfloor>u1 * real (length layers)\<rfloor>;
          (hRatio, g3) = Math_random g2;
          yOffset = (hRatio - 0.5) * layer_h layer;
          (u2, g4) = Math_random g3;
          (u3, g5) = Math_random g4;
          rBias = (if u2 > 0.8 then u3 else 0.9 + u3 * 0.1);
          currentRadius = layer_r layer * (1 - hRatio) * rBias;
          (u4, g6) = Math_random g5;
          theta = u4 * pi * 2;
          targetPos' = targetPos st @
            [cos theta * currentRadius, layer_y layer + yOffset, sin theta * currentRadius];
          (u5, g7) = Math_random g6;
          (u6, g8) = Math_random g7
      in \<lparr>positions = positions', targetPos = targetPos',
          randoms = randoms st @ [u5], sizes = sizes st @ [u6 * 0.5 + 0.5], f_rng = g8\<rparr>)"

definition generate_foliage :: "rng \<Rightarrow> FoliageGen" where
  "generate_foliage g =
     fold foliage_body [0..<foliageCount]
       \<lparr>positions = [], targetPos = [], randoms = [], sizes = [], f_rng = g\<rparr>"

subsection \<open>2. Ornaments (spheres, light)\<close>

definition sphereCount :: nat where
  "sphereCount = 120"

text \<open>
  The state of the ornament loops: the two buffers, the fill index \<open>oIdx\<close> and the
  generator. \<open>o_written\<close> is instrumentation that the source does not have: the element
  indices at which the loop body stored into the buffers, in order. A store into a
  \<^verbatim>\<open>Float32Array\<close> beyond its length is dropped, as \<open>xs[k := v]\<close> is.
\<close>

record OrnamentGen =
  oScatter :: "real list"
  oTree :: "real list"
  oIdx :: nat
  o_rng :: rng
  o_written :: "nat list"

definition ornament_body :: "nat \<Rightarrow> nat \<Rightarrow> nat \<Rightarrow> OrnamentGen \<Rightarrow> OrnamentGen" where
  "ornament_body i count j st =
     (let yBase = -1.5 + real i * 1.1;
          radiusBase = 2.0 - (real i * 0.4);
          k = oIdx st;
          (sPos, g1) = randomInSphere 7 1 (o_rng st);
          oScatter' = (oScatter st)[k*3 := vx sPos, k*3+1 := vy sPos, k*3+2 := vz sPos];
          angle = (real j / real count) * pi * 2 + (real i * 0.5);
          (u, g2) = Math_random g1;
          oTree' = (oTree st)
            [k*3 := cos angle * (radiusBase * 0.95),
             k*3+1 := yBase - 0.1 + (u * 0.3),
             k*3+2 := sin angle * (radiusBase * 0.95)]
      in \<lparr>oScatter = oScatter', oTree = oTree', oIdx = k + 1, o_rng = g2,
          o_written = o_written st @ [k]\<rparr>)"

text \<open>The inner loop over \<open>j\<close>, with its \<^verbatim>\<open>break\<close> once the buffer is full.\<close>

function ornament_ring :: "nat \<Rightarrow> nat \<Rightarrow> nat \<Rightarrow> OrnamentGen \<Rightarrow> OrnamentGen" where
  "ornament_ring i count j st =
     (if j < count then
        (if oIdx st \<ge> sphereCount then st
         else ornament_ring i count (Suc j) (ornament_body i count j st))
      else st)"
  by pat_completeness auto
termination
  by (relation "measure (\<lambda>(i, count, j, st). count - j)") auto

declare ornament_ring.simps [simp del]

definition ornament_rings :: "nat \<Rightarrow> OrnamentGen \<Rightarrow> OrnamentGen" where
  "ornament_rings i st = ornament_ring i (10 + i * 4) 0 st"

definition generate_ornaments :: "rng \<Rightarrow> OrnamentGen" where
  "generate_ornaments g =
     fold ornament_rings [0..<5]
       \<lparr>oScatter = replicate (sphereCount * 3) 0, oTree = replicate (sphereCount * 3) 0,
        oIdx = 0, o_rng = g, o_written = []\<rparr>"

record OrnamentData =
  o_scatter :: "real list"
  o_tree :: "real list"
  o_count :: nat

subsection \<open>3. Gifts (boxes, heavy)\<close>

definition giftCount :: nat where
  "giftCount = 25"

record GiftGen =
  gScatter :: "real list"
  gTree :: "real list"
  gRotation :: "real list"
  g_rng :: rng

text \<open>
  The three local constants \<open>theta\<close>, \<open>y\<close> and \<open>r\<close> of the loop body, as functions
  of the loop index.
\<close>

definition gift_theta :: "nat \<Rightarrow> real" where
  "gift_theta i = (real i / real giftCount) * pi * 10"

definition gift_y :: "nat \<Rightarrow> real" where
  "gift_y i = -1.5 + (real i / real giftCount) * 4.5"

definition gift_r :: "nat \<Rightarrow> real" where
  "gift_r i = 2.4 * (1 - (real i / real giftCount) * 0.8)"

definition gift_body :: "nat \<Rightarrow> GiftGen \<Rightarrow> GiftGen" where
  "gift_body i st =
     (let (sPos, g1) = randomInSphere 5 (-1) (g_rng st);
          gScatter' = (gScatter st)[i*3 := vx sPos, i*3+1 := vy sPos, i*3+2 := vz sPos];
          theta = gift_theta i;
          y = gift_y i;
          r = gift_r i;
          gTree' = (gTree st)[i*3 := cos theta * r, i*3+1 := y, i*3+2 := sin theta * r];
          (u1, g2) = Math_random g1;
          (u2, g3) = Math_random g2;
          (u3, g4) = Math_random g3;
          gRotation' = (gRotation st)[i*3 := u1 * pi, i*3+1 := u2 * pi, i*3+2 := u3 * pi]
      in \<lparr>gScatter = gScatter', gTree = gTree', gRotation = gRotation', g_rng = g4\<rparr>)"

definition generate_gifts :: "rng \<Rightarrow> GiftGen" where
  "generate_gifts g =
     fold gift_body [0..<giftCount]
       \<lparr>gScatter = replicate (giftCount * 3) 0, gTree = replicate (giftCount * 3) 0,
        gRotation = replicate (giftCount * 3) 0, g_rng = g\<rparr>"

record GiftData =
  g_scatter :: "real list"
  g_tree :: "real list"
  g_rot :: "real list"
  g_count :: nat

subsection \<open>The memoised result\<close>

record Generated =
  pointsGeometry :: Geometry
  ornamentData :: OrnamentData
  giftData :: GiftData

definition useMemo_generate :: "rng \<Rightarrow> Generated" where
  "useMemo_generate g =
     (let fo = generate_foliage g;
          geometry = \<lparr>position = positions fo, aTargetPos = targetPos fo,
                      aRandom = randoms fo, aSize = sizes fo\<rparr>;
          orn = generate_ornaments (f_rng fo);
          gi = generate_gifts (o_rng orn)
      in \<lparr>pointsGeometry = geometry,
          ornamentData = \<lparr>o_scatter = oScatter orn, o_tree = oTree orn, o_count = oIdx orn\<rparr>,
          giftData = \<lparr>g_scatter = gScatter gi, g_tree = gTree gi, g_rot = gRotation gi,
                      g_count = giftCount\<rparr>\<rparr>)"

section \<open>The per-frame update (MorphingTree, useFrame)\<close>

subsection \<open>Scene objects\<close>

text \<open>
  \<^verbatim>\<open>Object3D.updateMatrix()\<close> composes the local matrix from the position, the
  rotation and the scale of the object. The composed matrix is kept as that triple, which
  determines it.
\<close>

record Matrix4 =
  m_position :: Vector3
  m_rotation :: Euler
  m_scale :: Vector3

record Object3D =
  ob_position :: Vector3
  ob_rotation :: Euler
  ob_scale :: Vector3
  ob_matrix :: Matrix4

definition updateMatrix :: "Object3D \<Rightarrow> Object3D" where
  "updateMatrix d =
     d\<lparr>ob_matrix := \<lparr>m_position = ob_position d, m_rotation = ob_rotation d,
                      m_scale = ob_scale d\<rparr>\<rparr>"

definition setScalar :: "real \<Rightarrow> Vector3" where
  "setScalar c = \<lparr>vx = c, vy = c, vz = c\<rparr>"

definition identity_matrix :: Matrix4 where
  "identity_matrix =
     \<lparr>m_position = setScalar 0, m_rotation = \<lparr>ex = 0, ey = 0, ez = 0\<rparr>, m_scale = setScalar 1\<rparr>"

definition new_Object3D :: Object3D where
  "new_Object3D =
     \<lparr>ob_position = setScalar 0, ob_rotation = \<lparr>ex = 0, ey = 0, ez = 0\<rparr>,
      ob_scale = setScalar 1, ob_matrix = identity_matrix\<rparr>"

record InstancedMesh =
  instanceMatrix :: "Matrix4 list"
  needsUpdate :: bool

definition setMatrixAt :: "nat \<Rightarrow> Matrix4 \<Rightarrow> InstancedMesh \<Rightarrow> InstancedMesh" where
  "setMatrixAt i m mesh = mesh\<lparr>instanceMatrix := (instanceMatrix mesh)[i := m]\<rparr>"

record FoliageMaterial =
  uTime :: real
  uProgress :: real

text \<open>
  Everything the frame callback can reach: the memoised data, the \<open>progress\<close> ref, the
  four object refs (\<open>None\<close> while \<^verbatim>\<open>ref.current\<close> is null) and the four scratch
  objects.
\<close>

record Scene =
  memo :: Generated
  progress :: real
  groupRef :: "Euler option"
  foliageMatRef :: "FoliageMaterial option"
  ornamentRef :: "InstancedMesh option"
  giftsRef :: "InstancedMesh option"
  dummy :: Object3D
  vec3Scatter :: Vector3
  vec3Tree :: Vector3
  currentVec :: Vector3

text \<open>
  What one call of the callback receives: the \<open>config\<close> prop as it is at that frame,
  \<^verbatim>\<open>state.clock.elapsedTime\<close> and \<open>delta\<close>.
\<close>

record FrameInput =
  config :: TreeConfig
  elapsedTime :: real
  delta :: real

subsection \<open>Rotation and progress\<close>

definition rotation_step :: "FrameInput \<Rightarrow> Scene \<Rightarrow> Scene" where
  "rotation_step f s =
     (case groupRef s of
        None \<Rightarrow> s
      | Some rot \<Rightarrow>
          (let speedMult = (if morphState (config f) = SCATTERED then 0.2 else 1.0)
           in s\<lparr>groupRef :=
                  Some (rot\<lparr>ey := ey rot + delta f * rotationSpeed (config f) * speedMult\<rparr>)\<rparr>))"

definition targetProgress :: "TreeMorphState \<Rightarrow> real" where
  "targetProgress m = (if m = TREE_SHAPE then 1 else 0)"

definition progress_step :: "FrameInput \<Rightarrow> Scene \<Rightarrow> Scene" where
  "progress_step f s =
     s\<lparr>progress := lerp (progress s) (targetProgress (morphState (config f))) (delta f * 2.0)\<rparr>"

subsection \<open>Easing\<close>

definition smoothT :: "real \<Rightarrow> real" where
  "smoothT t = (if t < 0.5 then 4 * t * t * t else 1 - (-2 * t + 2) ^ 3 / 2)"

definition heavyT :: "real \<Rightarrow> real" where
  "heavyT sT = max 0 (sT - 0.1)"

definition effectiveT :: "real \<Rightarrow> real" where
  "effectiveT sT = clamp (heavyT sT * 1.1) 0 1"

subsection \<open>1. Foliage shader uniforms\<close>

definition update_foliage :: "FrameInput \<Rightarrow> real \<Rightarrow> Scene \<Rightarrow> Scene" where
  "update_foliage f t s =
     (case foliageMatRef s of
        None \<Rightarrow> s
      | Some mat \<Rightarrow> s\<lparr>foliageMatRef := Some (mat\<lparr>uTime := elapsedTime f, uProgress := t\<rparr>)\<rparr>)"

subsection \<open>2. Spheres (light physics)\<close>

definition sphere_body :: "FrameInput \<Rightarrow> real \<Rightarrow> real \<Rightarrow> nat \<Rightarrow> Scene \<Rightarrow> Scene" where
  "sphere_body f t sT i s =
     (let od = ornamentData (memo s);
          vS = \<lparr>vx = o_scatter od ! (i*3), vy = o_scatter od ! (i*3+1),
                vz = o_scatter od ! (i*3+2)\<rparr>;
          vT = \<lparr>vx = o_tree od ! (i*3), vy = o_tree od ! (i*3+1), vz = o_tree od ! (i*3+2)\<rparr>;
          cur = lerpVectors vS vT sT;
          cur' = (if t < 0.99
                  then cur\<lparr>vy := vy cur + sin (elapsedTime f * 2.0 + real i) * 0.1 * (1 - sT)\<rparr>
                  else cur);
          d1 = (dummy s)\<lparr>ob_position := cur'\<rparr>;
          d2 = d1\<lparr>ob_scale := setScalar 1\<rparr>;
          d3 = updateMatrix d2
      in s\<lparr>vec3Scatter := vS, vec3Tree := vT, currentVec := cur', dummy := d3,
           ornamentRef := map_option (setMatrixAt i (ob_matrix d3)) (ornamentRef s)\<rparr>)"

definition update_spheres :: "FrameInput \<Rightarrow> real \<Rightarrow> real \<Rightarrow> Scene \<Rightarrow> Scene" where
  "update_spheres f t sT s =
     (case ornamentRef s of
        None \<Rightarrow> s
      | Some _ \<Rightarrow>
          (let s' = fold (sphere_body f t sT) [0..<o_count (ornamentData (memo s))] s
           in s'\<lparr>ornamentRef := map_option (\<lambda>m. m\<lparr>needsUpdate := True\<rparr>) (ornamentRef s')\<rparr>))"

subsection \<open>3. Gifts (heavy physics)\<close>

definition gift_frame_body :: "FrameInput \<Rightarrow> real \<Rightarrow> real \<Rightarrow> nat \<Rightarrow> Scene \<Rightarrow> Scene" where
  "gift_frame_body f t sT i s =
     (let gd = giftData (memo s);
          vS = \<lparr>vx = g_scatter gd ! (i*3), vy = g_scatter gd ! (i*3+1),
                vz = g_scatter gd ! (i*3+2)\<rparr>;
          vT = \<lparr>vx = g_tree gd ! (i*3), vy = g_tree gd ! (i*3+1), vz = g_tree gd ! (i*3+2)\<rparr>;
          eT = effectiveT sT;
          cur = lerpVectors vS vT eT;
          cur' = (if t < 0.99
                  then cur\<lparr>vy := vy cur + sin (elapsedTime f * 0.5 + real i) * 0.05 * (1 - eT)\<rparr>
                  else cur);
          rot' = (if t < 0.99
                  then \<lparr>ex = g_rot gd ! (i*3) + elapsedTime f * 0.1,
                        ey = g_rot gd ! (i*3+1) + elapsedTime f * 0.1,
                        ez = g_rot gd ! (i*3+2)\<rparr>
                  else \<lparr>ex = 0, ey = 0, ez = 0\<rparr>);
          d1 = (dummy s)\<lparr>ob_rotation := rot'\<rparr>;
          d2 = d1\<lparr>ob_position := cur'\<rparr>;
          d3 = d2\<lparr>ob_scale := setScalar 0.25\<rparr>;
          d4 = updateMatrix d3
      in s\<lparr>vec3Scatter := vS, vec3Tree := vT, currentVec := cur', dummy := d4,
           giftsRef := map_option (setMatrixAt i (ob_matrix d4)) (giftsRef s)\<rparr>)"

definition update_gifts :: "FrameInput \<Rightarrow> real \<Rightarrow> real \<Rightarrow> Scene \<Rightarrow> Scene" where
  "update_gifts f t sT s =
     (case giftsRef s of
        None \<Rightarrow> s
      | Some _ \<Rightarrow>
          (let s' = fold (gift_frame_body f t sT) [0..<g_count (giftData (memo s))] s
           in s'\<lparr>giftsRef := map_option (\<lambda>m. m\<lparr>needsUpdate := True\<rparr>) (giftsRef s')\<rparr>))"

subsection \<open>The callback and the frame loop\<close>

definition useFrame :: "FrameInput \<Rightarrow> Scene \<Rightarrow> Scene" where
  "useFrame f s =
     (let s1 = rotation_step f s;
          s2 = progress_step f s1;
          t = progress s2;
          sT = smoothT t;
          s3 = update_foliage f t s2;
          s4 = update_spheres f t sT s3
      in update_gifts f t sT s4)"

fun run_frames :: "FrameInput list \<Rightarrow> Scene \<Rightarrow> Scene" where
  "run_frames [] s = s"
| "run_frames (f # fs) s = run_frames fs (useFrame f s)"

text \<open>
  The component once mounted: the data generated from the draws \<open>g\<close>, \<open>progress\<close> at
  its initial 1, every ref attached, the instanced meshes sized by the counts of the data.
\<close>

definition MorphingTree_mount :: "rng \<Rightarrow> Scene" where
  "MorphingTree_mount g =
     (let d = useMemo_generate g
      in \<lparr>memo = d, progress = 1,
          groupRef = Some \<lparr>ex = 0, ey = 0, ez = 0\<rparr>,
          foliageMatRef = Some \<lparr>uTime = 0, uProgress = 0\<rparr>,
          ornamentRef = Some \<lparr>instanceMatrix = replicate (o_count (ornamentData d)) identity_matrix,
                              needsUpdate = False\<rparr>,
          giftsRef = Some \<lparr>instanceMatrix = replicate (g_count (giftData d)) identity_matrix,
                           needsUpdate = False\<rparr>,
          dummy = new_Object3D, vec3Scatter = setScalar 0, vec3Tree = setScalar 0,
          currentVec = setScalar 0\<rparr>)"

text \<open>The configuration App.tsx starts with, and the same with the morph state toggled.\<close>

definition App_config :: TreeConfig where
  "App_config =
     \<lparr>rotationSpeed = 0.3, bloomIntensity = 1.5, lightsColor = ''#FFFAEE'',
      morphState = TREE_SHAPE\<rparr>"

definition toggled_config :: TreeConfig where
  "toggled_config = App_config\<lparr>morphState := SCATTERED\<rparr>"

section \<open>Scenarios and the wording of the specification\<close>

text \<open>\<open>n\<close> consecutive frames at 60 frames per second under one configuration.\<close>

definition sixty_fps :: "TreeConfig \<Rightarrow> nat \<Rightarrow> FrameInput list" where
  "sixty_fps c n =
     map (\<lambda>k. \<lparr>config = c, elapsedTime = real (Suc k) / 60, delta = 1/60\<rparr>) [0..<n]"

text \<open>
  The azimuth of gift \<open>i\<close> as the specification words it: ten full turns across the
  index range. It is compared below with \<open>gift_theta\<close>, which is what the loop computes.
\<close>

definition spec_gift_theta :: "nat \<Rightarrow> real" where
  "spec_gift_theta i = (real i / real giftCount) * (10 * (2 * pi))"

section \<open>Properties of the frame callback\<close>

subsection \<open>What each step leaves alone\<close>

lemma fold_keeps:
  assumes "\<And>i s. P (b i s) = P s"
  shows "P (fold b xs s) = P s"
  using assms by (induction xs arbitrary: s) simp_all

lemma sphere_body_progress: "progress (sphere_body f t sT i s) = progress s"
  by (simp add: sphere_body_def Let_def)

lemma gift_frame_body_progress: "progress (gift_frame_body f t sT i s) = progress s"
  by (simp add: gift_frame_body_def Let_def)

lemma update_spheres_progress: "progress (update_spheres f t sT s) = progress s"
  by (simp add: update_spheres_def Let_def fold_keeps [where P = progress] sphere_body_progress
      split: option.splits)

lemma update_gifts_progress: "progress (update_gifts f t sT s) = progress s"
  by (simp add: update_gifts_def Let_def fold_keeps [where P = progress] gift_frame_body_progress
      split: option.splits)

lemma update_foliage_progress: "progress (update_foliage f t s) = progress s"
  by (simp add: update_foliage_def split: option.splits)

lemma rotation_step_progress: "progress (rotation_step f s) = progress s"
  by (simp add: rotation_step_def Let_def split: option.splits)

lemma useFrame_progress:
  "progress (useFrame f s) = lerp (progress s) (targetProgress (morphState (config f))) (delta f * 2)"
  by (simp add: useFrame_def Let_def update_gifts_progress update_spheres_progress
      update_foliage_progress progress_step_def rotation_step_progress targetProgress_def)

lemma mount_progress: "progress (MorphingTree_mount g) = 1"
  by (simp add: MorphingTree_mount_def Let_def)

lemma sphere_body_groupRef: "groupRef (sphere_body f t sT i s) = groupRef s"
  by (simp add: sphere_body_def Let_def)

lemma gift_frame_body_groupRef: "groupRef (gift_frame_body f t sT i s) = groupRef s"
  by (simp add: gift_frame_body_def Let_def)

lemma update_spheres_groupRef: "groupRef (update_spheres f t sT s) = groupRef s"
  by (simp add: update_spheres_def Let_def fold_keeps [where P = groupRef] sphere_body_groupRef
      split: option.splits)

lemma update_gifts_groupRef: "groupRef (update_gifts f t sT s) = groupRef s"
  by (simp add: update_gifts_def Let_def fold_keeps [where P = groupRef] gift_frame_body_groupRef
      split: option.splits)

lemma update_foliage_groupRef: "groupRef (update_foliage f t s) = groupRef s"
  by (simp add: update_foliage_def split: option.splits)

lemma progress_step_groupRef: "groupRef (progress_step f s) = groupRef s"
  by (simp add: progress_step_def Let_def)

lemma useFrame_groupRef: "groupRef (useFrame f s) = groupRef (rotation_step f s)"
  by (simp add: useFrame_def Let_def update_gifts_groupRef update_spheres_groupRef
      update_foliage_groupRef progress_step_groupRef)

lemma mount_groupRef: "groupRef (MorphingTree_mount g) = Some \<lparr>ex = 0, ey = 0, ez = 0\<rparr>"
  by (simp add: MorphingTree_mount_def Let_def)

lemma sphere_body_memo: "memo (sphere_body f t sT i s) = memo s"
  by (simp add: sphere_body_def Let_def)

lemma gift_frame_body_memo: "memo (gift_frame_body f t sT i s) = memo s"
  by (simp add: gift_frame_body_def Let_def)

lemma update_spheres_memo: "memo (update_spheres f t sT s) = memo s"
  by (simp add: update_spheres_def Let_def fold_keeps [where P = memo] sphere_body_memo
      split: option.splits)

lemma update_gifts_memo: "memo (update_gifts f t sT s) = memo s"
  by (simp add: update_gifts_def Let_def fold_keeps [where P = memo] gift_frame_body_memo
      split: option.splits)

lemma update_foliage_memo: "memo (update_foliage f t s) = memo s"
  by (simp add: update_foliage_def split: option.splits)

lemma progress_step_memo: "memo (progress_step f s) = memo s"
  by (simp add: progress_step_def Let_def)

lemma rotation_step_memo: "memo (rotation_step f s) = memo s"
  by (simp add: rotation_step_def Let_def split: option.splits)

lemma useFrame_memo: "memo (useFrame f s) = memo s"
  by (simp add: useFrame_def Let_def update_gifts_memo update_spheres_memo
      update_foliage_memo progress_step_memo rotation_step_memo)

lemma run_frames_memo: "memo (run_frames fs s) = memo s"
  by (induction fs arbitrary: s) (simp_all add: useFrame_memo)

lemma sphere_body_giftsRef: "giftsRef (sphere_body f t sT i s) = giftsRef s"
  by (simp add: sphere_body_def Let_def)

lemma update_spheres_giftsRef: "giftsRef (update_spheres f t sT s) = giftsRef s"
  by (simp add: update_spheres_def Let_def fold_keeps [where P = giftsRef] sphere_body_giftsRef
      split: option.splits)

lemma update_foliage_giftsRef: "giftsRef (update_foliage f t s) = giftsRef s"
  by (simp add: update_foliage_def split: option.splits)

lemma progress_step_giftsRef: "giftsRef (progress_step f s) = giftsRef s"
  by (simp add: progress_step_def Let_def)

lemma rotation_step_giftsRef: "giftsRef (rotation_step f s) = giftsRef s"
  by (simp add: rotation_step_def Let_def split: option.splits)

lemma useFrame_gifts:
  "useFrame f s =
     update_gifts f (progress (useFrame f s)) (smoothT (progress (useFrame f s)))
       (update_spheres f (progress (useFrame f s)) (smoothT (progress (useFrame f s)))
         (update_foliage f (progress (useFrame f s)) (progress_step f (rotation_step f s))))"
  unfolding useFrame_progress
  by (simp add: useFrame_def Let_def progress_step_def rotation_step_progress targetProgress_def)

lemma mount_gifts:
  "giftsRef (MorphingTree_mount g) = Some \<lparr>instanceMatrix = replicate 25 identity_matrix, needsUpdate = False\<rparr>"
  "g_count (giftData (memo (MorphingTree_mount g))) = 25"
  by (simp_all add: MorphingTree_mount_def useMemo_generate_def Let_def giftCount_def)

subsection \<open>The scheduler\<close>

lemma lerp_unit:
  assumes "0 \<le> p" "p \<le> 1" "0 \<le> d" "d \<le> 1/2" "T = 0 \<or> T = 1"
  shows "0 \<le> lerp p T (d * 2) \<and> lerp p T (d * 2) \<le> 1"
proof -
  have a: "0 \<le> 1 - d * 2" "0 \<le> d * 2" using assms by simp_all
  from assms(5) show ?thesis
  proof
    assume "T = 0"
    then have "lerp p T (d * 2) = (1 - d * 2) * p" by (simp add: lerp_def)
    moreover have "0 \<le> (1 - d * 2) * p" using a assms by simp
    moreover have "(1 - d * 2) * p \<le> 1 * 1" using a assms by (intro mult_mono) simp_all
    ultimately show ?thesis by simp
  next
    assume "T = 1"
    then have e: "lerp p T (d * 2) = 1 - (1 - d * 2) * (1 - p)" by (simp add: lerp_def algebra_simps)
    have "0 \<le> (1 - d * 2) * (1 - p)" using a assms by simp
    moreover have "(1 - d * 2) * (1 - p) \<le> 1 * 1" using a assms by (intro mult_mono) simp_all
    ultimately show ?thesis using e by simp
  qed
qed

lemma lerp_gap: "T - lerp p T a = (1 - a) * (T - p)"
  by (simp add: lerp_def algebra_simps)

lemma lerp_approach:
  assumes "0 \<le> d" "d \<le> 1/2"
  shows "\<bar>T - lerp p T (d * 2)\<bar> \<le> \<bar>T - p\<bar>"
    and "p \<le> T \<Longrightarrow> lerp p T (d * 2) \<le> T"
    and "T \<le> p \<Longrightarrow> T \<le> lerp p T (d * 2)"
proof -
  have a: "0 \<le> 1 - d * 2" "1 - d * 2 \<le> 1" using assms by simp_all
  have "\<bar>T - lerp p T (d * 2)\<bar> = (1 - d * 2) * \<bar>T - p\<bar>"
    using a by (simp add: lerp_gap abs_mult)
  also have "\<dots> \<le> 1 * \<bar>T - p\<bar>" using a by (intro mult_right_mono) simp_all
  finally show "\<bar>T - lerp p T (d * 2)\<bar> \<le> \<bar>T - p\<bar>" by simp
  show "lerp p T (d * 2) \<le> T" if "p \<le> T"
  proof -
    have "0 \<le> (1 - d * 2) * (T - p)" using a that by simp
    then show ?thesis using lerp_gap [of T p "d * 2"] by simp
  qed
  show "T \<le> lerp p T (d * 2)" if "T \<le> p"
  proof -
    have "(1 - d * 2) * (T - p) \<le> 0" using a that by (simp add: mult_nonneg_nonpos)
    then show ?thesis using lerp_gap [of T p "d * 2"] by simp
  qed
qed

lemma targetProgress_cases: "targetProgress m = 0 \<or> targetProgress m = 1"
  by (simp add: targetProgress_def)

lemma useFrame_unit:
  assumes "0 \<le> progress s" "progress s \<le> 1" "0 \<le> delta f" "delta f \<le> 1/2"
  shows "0 \<le> progress (useFrame f s) \<and> progress (useFrame f s) \<le> 1"
  unfolding useFrame_progress using assms targetProgress_cases by (intro lerp_unit) simp_all

lemma run_frames_unit:
  assumes "0 \<le> progress s" "progress s \<le> 1" "\<forall>f\<in>set fs. 0 \<le> delta f \<and> delta f \<le> 1/2"
  shows "0 \<le> progress (run_frames fs s) \<and> progress (run_frames fs s) \<le> 1"
  using assms
proof (induction fs arbitrary: s)
  case Nil
  then show ?case by simp
next
  case (Cons f fs)
  have "0 \<le> progress (useFrame f s) \<and> progress (useFrame f s) \<le> 1"
    using Cons.prems by (intro useFrame_unit) simp_all
  then show ?case using Cons.IH [of "useFrame f s"] Cons.prems by simp
qed

lemma run_frames_uniform:
  assumes "\<forall>f\<in>set fs. morphState (config f) = m \<and> delta f = d"
  shows "progress (run_frames fs s) =
           targetProgress m + (progress s - targetProgress m) * (1 - d * 2) ^ length fs"
  using assms
proof (induction fs arbitrary: s)
  case Nil
  then show ?case by simp
next
  case (Cons f fs)
  have "progress (useFrame f s) = targetProgress m + (progress s - targetProgress m) * (1 - d * 2)"
    using Cons.prems by (simp add: useFrame_progress lerp_def algebra_simps)
  then show ?case using Cons.IH [of "useFrame f s"] Cons.prems by simp
qed

lemma decay_10: "(29/30 :: real) ^ 10 < 72/100"
  by (simp add: power_divide)

lemma decay_30: "(72/100 :: real) ^ 30 < 1/1000"
  by (simp add: power_divide)

lemma decay_300: "(29/30 :: real) ^ 300 < 1/1000"
proof -
  have "(29/30 :: real) ^ 300 = ((29/30) ^ 10) ^ 30" by (simp add: power_mult [symmetric])
  also have "\<dots> \<le> (72/100) ^ 30" using decay_10 by (intro power_mono) simp_all
  also have "\<dots> < 1/1000" by (rule decay_30)
  finally show ?thesis .
qed

lemma two_step:
  "progress (run_frames [\<lparr>config = c, elapsedTime = e1, delta = d1\<rparr>,
                         \<lparr>config = c, elapsedTime = e2, delta = d2\<rparr>] s) =
   progress (useFrame \<lparr>config = c, elapsedTime = e2, delta = d1 + d2\<rparr> s)
     - 4 * d1 * d2 * (targetProgress (morphState c) - progress s)"
  by (simp add: useFrame_progress lerp_def algebra_simps)

lemma linear_form:
  "progress (useFrame f s) =
     progress s + (targetProgress (morphState (config f)) - progress s) * (2.0 * delta f)"
  by (simp add: useFrame_progress lerp_def algebra_simps)

subsection \<open>Easing and the lag of the heavy instances\<close>

lemma smoothT_unit:
  assumes "0 \<le> t" "t \<le> 1"
  shows "0 \<le> smoothT t \<and> smoothT t \<le> 1"
proof (cases "t < 0.5")
  case True
  have "0 \<le> t * t * t" using assms by simp
  moreover have "t * t * t \<le> (1/2) * (1/2) * (1/2)"
    using True assms by (intro mult_mono) simp_all
  ultimately show ?thesis using True by (simp add: smoothT_def)
next
  case False
  define q where "q = 2 - 2 * t"
  have q: "0 \<le> q" "q \<le> 1" using False assms by (simp_all add: q_def)
  have "0 \<le> q ^ 3" using q by simp
  moreover have "q ^ 3 \<le> 1" using q by (simp add: power_le_one)
  moreover have "smoothT t = 1 - q ^ 3 / 2" using False by (simp add: smoothT_def q_def)
  ultimately show ?thesis by simp
qed

lemma smoothT_zero_iff:
  assumes "0 \<le> t" "t \<le> 1"
  shows "smoothT t = 0 \<longleftrightarrow> t = 0"
proof (cases "t < 0.5")
  case True
  then show ?thesis by (simp add: smoothT_def)
next
  case False
  define q where "q = 2 - 2 * t"
  have q: "0 \<le> q" "q \<le> 1" using False assms by (simp_all add: q_def)
  have "q ^ 3 \<le> 1" using q by (simp add: power_le_one)
  moreover have "smoothT t = 1 - q ^ 3 / 2" using False by (simp add: smoothT_def q_def)
  ultimately have "smoothT t \<ge> 1/2" by simp
  then show ?thesis using False by auto
qed

lemma effectiveT_cases:
  assumes "0 \<le> x" "x \<le> 1"
  shows "effectiveT x = (if x \<le> 0.1 then 0 else (x - 0.1) * 1.1)"
  using assms by (auto simp: effectiveT_def heavyT_def clamp_def max_def min_def)

lemma effectiveT_props:
  assumes "0 \<le> x" "x \<le> 1"
  shows "effectiveT x \<le> x" "effectiveT x = x \<longleftrightarrow> x = 0" "effectiveT x \<le> 0.99"
  using assms by (auto simp: effectiveT_cases)

subsection \<open>The gift loop once assembled\<close>

lemma gift_frame_body_settled:
  assumes "\<not> t < 0.99"
  shows "m_rotation (ob_matrix (dummy (gift_frame_body f t sT i s))) = \<lparr>ex = 0, ey = 0, ez = 0\<rparr>"
    and "giftsRef (gift_frame_body f t sT i s) =
           map_option (setMatrixAt i (ob_matrix (dummy (gift_frame_body f t sT i s)))) (giftsRef s)"
  using assms by (simp_all add: gift_frame_body_def Let_def updateMatrix_def)

lemma gift_loop_settled:
  assumes "\<not> t < 0.99" "giftsRef s = Some mesh"
  shows "\<exists>mesh'. giftsRef (fold (gift_frame_body f t sT) [0..<n] s) = Some mesh' \<and>
           length (instanceMatrix mesh') = length (instanceMatrix mesh) \<and>
           (\<forall>i<n. i < length (instanceMatrix mesh) \<longrightarrow>
              m_rotation (instanceMatrix mesh' ! i) = \<lparr>ex = 0, ey = 0, ez = 0\<rparr>)"
proof (induction n)
  case 0
  then show ?case using assms by simp
next
  case (Suc n)
  define s' where "s' = fold (gift_frame_body f t sT) [0..<n] s"
  obtain m1 where m1: "giftsRef s' = Some m1"
    "length (instanceMatrix m1) = length (instanceMatrix mesh)"
    "\<forall>i<n. i < length (instanceMatrix mesh) \<longrightarrow>
        m_rotation (instanceMatrix m1 ! i) = \<lparr>ex = 0, ey = 0, ez = 0\<rparr>"
    using Suc unfolding s'_def by blast
  obtain M where M: "m_rotation M = \<lparr>ex = 0, ey = 0, ez = 0\<rparr>"
    "giftsRef (gift_frame_body f t sT n s') = map_option (setMatrixAt n M) (giftsRef s')"
    using gift_frame_body_settled [OF assms(1), of f sT n s'] by blast
  have e: "fold (gift_frame_body f t sT) [0..<Suc n] s = gift_frame_body f t sT n s'"
    by (simp add: s'_def)
  have r: "giftsRef (gift_frame_body f t sT n s') = Some (setMatrixAt n M m1)"
    using M(2) m1(1) by simp
  have "\<forall>i<Suc n. i < length (instanceMatrix mesh) \<longrightarrow>
          m_rotation (instanceMatrix (setMatrixAt n M m1) ! i) = \<lparr>ex = 0, ey = 0, ez = 0\<rparr>"
  proof (intro allI impI)
    fix i assume i: "i < Suc n" "i < length (instanceMatrix mesh)"
    show "m_rotation (instanceMatrix (setMatrixAt n M m1) ! i) = \<lparr>ex = 0, ey = 0, ez = 0\<rparr>"
    proof (cases "i = n")
      case True
      then show ?thesis using i m1(2) M(1) by (simp add: setMatrixAt_def)
    next
      case False
      then have "i < n" using i by simp
      then show ?thesis using m1(3) i False by (simp add: setMatrixAt_def)
    qed
  qed
  moreover have "length (instanceMatrix (setMatrixAt n M m1)) = length (instanceMatrix mesh)"
    using m1(2) by (simp add: setMatrixAt_def)
  ultimately show ?case unfolding e r by blast
qed

lemma update_gifts_settled:
  assumes "\<not> t < 0.99" "giftsRef s = Some mesh"
    "i < g_count (giftData (memo s))" "i < length (instanceMatrix mesh)"
  shows "\<exists>mesh'. giftsRef (update_gifts f t sT s) = Some mesh' \<and>
           m_rotation (instanceMatrix mesh' ! i) = \<lparr>ex = 0, ey = 0, ez = 0\<rparr>"
proof -
  obtain m1 where m1:
    "giftsRef (fold (gift_frame_body f t sT) [0..<g_count (giftData (memo s))] s) = Some m1"
    "\<forall>i<g_count (giftData (memo s)). i < length (instanceMatrix mesh) \<longrightarrow>
        m_rotation (instanceMatrix m1 ! i) = \<lparr>ex = 0, ey = 0, ez = 0\<rparr>"
    using gift_loop_settled [OF assms(1,2)] by blast
  have "giftsRef (update_gifts f t sT s) = Some (m1\<lparr>needsUpdate := True\<rparr>)"
    using assms(2) m1(1) by (simp add: update_gifts_def Let_def)
  then show ?thesis using m1(2) assms(3,4) by simp
qed

section \<open>Properties of the generation\<close>

subsection \<open>The scatter sampler\<close>

lemma Math_random_range: "0 \<le> fst (Math_random g) \<and> fst (Math_random g) < 1"
  using Rep_draw [of "g 0"] by (simp add: Math_random_def)

lemma sphere_norm:
  fixes r s c a b :: real
  assumes "s\<^sup>2 + c\<^sup>2 = 1" "a\<^sup>2 + b\<^sup>2 = 1"
  shows "(r * s * a)\<^sup>2 + (r * s * b)\<^sup>2 + (r * c)\<^sup>2 = r\<^sup>2"
proof -
  have "(r * s * a)\<^sup>2 + (r * s * b)\<^sup>2 + (r * c)\<^sup>2 = r\<^sup>2 * (s\<^sup>2 * (a\<^sup>2 + b\<^sup>2) + c\<^sup>2)"
    by (simp add: power_mult_distrib algebra_simps)
  then show ?thesis using assms by simp
qed

lemma randomInSphere_point:
  "fst (randomInSphere radius biasY g) =
     (let r = root 3 (Rep_draw (g 2)) * radius;
          phi = arccos (2 * Rep_draw (g 1) - 1);
          theta = 2 * pi * Rep_draw (g 0)
      in \<lparr>vx = r * sin phi * cos theta, vy = r * sin phi * sin theta + biasY, vz = r * cos phi\<rparr>)"
  by (simp add: randomInSphere_def Math_random_def Let_def numeral_2_eq_2)

lemma randomInSphere_rng:
  "snd (randomInSphere radius biasY g) = (\<lambda>k. g (k + 3))"
  by (simp add: randomInSphere_def Math_random_def Let_def numeral_3_eq_3)

subsection \<open>The ornament rings\<close>

lemma ornament_body_simps:
  "oIdx (ornament_body i count j st) = oIdx st + 1"
  "o_written (ornament_body i count j st) = o_written st @ [oIdx st]"
  "length (oScatter (ornament_body i count j st)) = length (oScatter st)"
  "length (oTree (ornament_body i count j st)) = length (oTree st)"
  by (simp_all add: ornament_body_def Let_def split: prod.splits)

lemma ornament_ring_fill:
  assumes "oIdx st \<le> sphereCount"
  shows "oIdx (ornament_ring i count j st) = min sphereCount (oIdx st + (count - j)) \<and>
         o_written (ornament_ring i count j st) =
           o_written st @ [oIdx st ..< min sphereCount (oIdx st + (count - j))] \<and>
         length (oScatter (ornament_ring i count j st)) = length (oScatter st) \<and>
         length (oTree (ornament_ring i count j st)) = length (oTree st)"
  using assms
proof (induction i count j st rule: ornament_ring.induct)
  case (1 i count j st)
  show ?case
  proof (cases "j < count \<and> oIdx st < sphereCount")
    case True
    then have step: "ornament_ring i count j st =
        ornament_ring i count (Suc j) (ornament_body i count j st)"
      by (subst ornament_ring.simps) simp
    define st' where "st' = ornament_body i count j st"
    define hi where "hi = min sphereCount (oIdx st + (count - j))"
    have le: "oIdx st' \<le> sphereCount"
      using True by (simp add: st'_def ornament_body_simps)
    have m: "min sphereCount (oIdx st' + (count - Suc j)) = hi"
      using True unfolding hi_def st'_def ornament_body_simps by arith
    have lt: "oIdx st < hi" using True unfolding hi_def by arith
    have u: "[oIdx st ..< hi] = oIdx st # [Suc (oIdx st) ..< hi]"
      using lt by (rule upt_conv_Cons)
    have ih: "oIdx (ornament_ring i count (Suc j) st') = hi \<and>
         o_written (ornament_ring i count (Suc j) st') = o_written st' @ [oIdx st' ..< hi] \<and>
         length (oScatter (ornament_ring i count (Suc j) st')) = length (oScatter st') \<and>
         length (oTree (ornament_ring i count (Suc j) st')) = length (oTree st')"
      using "1.IH" [OF _ _ le [unfolded st'_def]] True unfolding m [unfolded st'_def] st'_def
      by simp
    show ?thesis
      unfolding step hi_def [symmetric] st'_def [symmetric]
      using ih u by (simp add: st'_def ornament_body_simps)
  next
    case False
    then have "ornament_ring i count j st = st"
      by (subst ornament_ring.simps) auto
    moreover have "min sphereCount (oIdx st + (count - j)) = oIdx st"
      using False "1.prems" by auto
    ultimately show ?thesis by simp
  qed
qed

lemma ornament_rings_fill:
  assumes "oIdx st \<le> sphereCount"
  shows "oIdx (ornament_rings i st) = min sphereCount (oIdx st + (10 + i * 4)) \<and>
         o_written (ornament_rings i st) =
           o_written st @ [oIdx st ..< min sphereCount (oIdx st + (10 + i * 4))] \<and>
         length (oScatter (ornament_rings i st)) = length (oScatter st) \<and>
         length (oTree (ornament_rings i st)) = length (oTree st)"
  using ornament_ring_fill [OF assms, of i "10 + i * 4" 0] by (simp add: ornament_rings_def)

lemma upt_glue: "a \<le> b \<Longrightarrow> b \<le> c \<Longrightarrow> [a..<b] @ [b..<c] = [a..<(c::nat)]"
  by (metis le_Suc_ex upt_add_eq_append)

lemma ornament_fold_fill:
  assumes "oIdx st \<le> sphereCount"
  shows "oIdx (fold ornament_rings rs st) =
           min sphereCount (oIdx st + sum_list (map (\<lambda>i. 10 + i * 4) rs)) \<and>
         o_written (fold ornament_rings rs st) =
           o_written st @ [oIdx st ..< min sphereCount (oIdx st + sum_list (map (\<lambda>i. 10 + i * 4) rs))] \<and>
         length (oScatter (fold ornament_rings rs st)) = length (oScatter st) \<and>
         length (oTree (fold ornament_rings rs st)) = length (oTree st)"
  using assms
proof (induction rs arbitrary: st)
  case Nil
  then show ?case by simp
next
  case (Cons r rs)
  define st' where "st' = ornament_rings r st"
  define S where "S = sum_list (map (\<lambda>i. 10 + i * 4) rs)"
  note ring = ornament_rings_fill [OF Cons.prems, of r, folded st'_def]
  have o': "oIdx st' = min sphereCount (oIdx st + (10 + r * 4))" using ring by simp
  have le: "oIdx st' \<le> sphereCount" using o' by simp
  note ih = Cons.IH [OF le, folded S_def]
  have m: "min sphereCount (oIdx st' + S) = min sphereCount (oIdx st + (10 + r * 4 + S))"
    unfolding o' by arith
  have g: "[oIdx st ..< oIdx st'] @ [oIdx st' ..< min sphereCount (oIdx st' + S)] =
           [oIdx st ..< min sphereCount (oIdx st' + S)]"
  proof (rule upt_glue)
    show "oIdx st \<le> oIdx st'" using o' Cons.prems by arith
    show "oIdx st' \<le> min sphereCount (oIdx st' + S)" using le by arith
  qed
  have w: "o_written st' = o_written st @ [oIdx st ..< oIdx st']" using ring o' by simp
  have c1: "oIdx (fold ornament_rings rs st') = min sphereCount (oIdx st + (10 + r * 4 + S))"
    using ih m by simp
  have "o_written (fold ornament_rings rs st') =
          (o_written st @ [oIdx st ..< oIdx st']) @ [oIdx st' ..< min sphereCount (oIdx st' + S)]"
    using ih unfolding w by simp
  also have "\<dots> = o_written st @ [oIdx st ..< min sphereCount (oIdx st' + S)]"
    using g by simp
  finally have c2: "o_written (fold ornament_rings rs st') =
          o_written st @ [oIdx st ..< min sphereCount (oIdx st + (10 + r * 4 + S))]"
    unfolding m .
  have c3: "length (oScatter (fold ornament_rings rs st')) = length (oScatter st)"
    "length (oTree (fold ornament_rings rs st')) = length (oTree st)"
    using ih ring by simp_all
  have e: "fold ornament_rings (r # rs) st = fold ornament_rings rs st'"
    by (simp add: st'_def)
  have t: "sum_list (map (\<lambda>i. 10 + i * 4) (r # rs)) = 10 + r * 4 + S"
    by (simp add: S_def)
  show ?case unfolding e t using c1 c2 c3 by simp
qed

lemma ring_total: "sum_list (map (\<lambda>i. 10 + i * 4) [0..<5]) = (90::nat)"
  by (simp add: upt_rec)

lemma generate_ornaments_fill:
  "oIdx (generate_ornaments g) = 90"
  "o_written (generate_ornaments g) = [0..<90]"
  "length (oScatter (generate_ornaments g)) = 360"
  "length (oTree (generate_ornaments g)) = 360"
proof -
  define st0 where "st0 = \<lparr>oScatter = replicate (sphereCount * 3) 0,
      oTree = replicate (sphereCount * 3) 0, oIdx = 0, o_rng = g, o_written = []\<rparr>"
  have le: "oIdx st0 \<le> sphereCount" by (simp add: st0_def)
  note f = ornament_fold_fill [OF le, of "[0..<5]", unfolded ring_total]
  have e: "generate_ornaments g = fold ornament_rings [0..<5] st0"
    by (simp add: generate_ornaments_def st0_def)
  have z: "oIdx st0 = 0" "o_written st0 = []" "length (oScatter st0) = 360"
    "length (oTree st0) = 360" by (simp_all add: st0_def sphereCount_def)
  have mn: "min sphereCount (0 + 90) = 90" by (simp add: sphereCount_def)
  show "oIdx (generate_ornaments g) = 90" "o_written (generate_ornaments g) = [0..<90]"
    "length (oScatter (generate_ornaments g)) = 360" "length (oTree (generate_ornaments g)) = 360"
    using f unfolding e z mn by simp_all
qed

subsection \<open>The gift spiral\<close>

lemma gift_body_gTree:
  "gTree (gift_body i st) =
     (gTree st)[i*3 := cos (gift_theta i) * gift_r i, i*3+1 := gift_y i,
                i*3+2 := sin (gift_theta i) * gift_r i]"
  by (simp add: gift_body_def Let_def gift_theta_def gift_y_def gift_r_def split: prod.splits)

lemma gift_loop_gTree:
  "length (gTree (fold gift_body [0..<n] st)) = length (gTree st) \<and>
   (\<forall>i<n. i*3+2 < length (gTree st) \<longrightarrow>
      gTree (fold gift_body [0..<n] st) ! (i*3) = cos (gift_theta i) * gift_r i \<and>
      gTree (fold gift_body [0..<n] st) ! (i*3+1) = gift_y i \<and>
      gTree (fold gift_body [0..<n] st) ! (i*3+2) = sin (gift_theta i) * gift_r i)"
proof (induction n)
  case 0
  then show ?case by simp
next
  case (Suc n)
  define st' where "st' = fold gift_body [0..<n] st"
  have len: "length (gTree st') = length (gTree st)" using Suc by (simp add: st'_def)
  have e: "fold gift_body [0..<Suc n] st = gift_body n st'" by (simp add: st'_def)
  show ?case unfolding e
  proof (intro conjI allI impI)
    show "length (gTree (gift_body n st')) = length (gTree st)"
      by (simp add: gift_body_gTree len)
  next
    fix i assume i: "i < Suc n" and b: "i*3+2 < length (gTree st)"
    show "gTree (gift_body n st') ! (i*3) = cos (gift_theta i) * gift_r i"
    proof (cases "i = n")
      case True
      then show ?thesis using b len by (simp add: gift_body_gTree)
    next
      case False
      then have "i < n" using i by simp
      then show ?thesis using Suc b False by (simp add: gift_body_gTree st'_def)
    qed
    show "gTree (gift_body n st') ! (i*3+1) = gift_y i"
    proof (cases "i = n")
      case True
      then show ?thesis using b len by (simp add: gift_body_gTree)
    next
      case False
      then have "i < n" using i by simp
      then show ?thesis using Suc b False by (simp add: gift_body_gTree st'_def)
    qed
    show "gTree (gift_body n st') ! (i*3+2) = sin (gift_theta i) * gift_r i"
    proof (cases "i = n")
      case True
      then show ?thesis using b len by (simp add: gift_body_gTree)
    next
      case False
      then have "i < n" using i by simp
      then show ?thesis using Suc b False by (simp add: gift_body_gTree st'_def)
    qed
  qed
qed

lemma generate_gifts_gTree:
  assumes "i < giftCount"
  shows "gTree (generate_gifts g) ! (i*3) = cos (gift_theta i) * gift_r i"
    and "gTree (generate_gifts g) ! (i*3+1) = gift_y i"
    and "gTree (generate_gifts g) ! (i*3+2) = sin (gift_theta i) * gift_r i"
    and "length (gTree (generate_gifts g)) = giftCount * 3"
proof -
  define st0 where "st0 = \<lparr>gScatter = replicate (giftCount * 3) 0, gTree = replicate (giftCount * 3) 0,
        gRotation = replicate (giftCount * 3) 0, g_rng = g\<rparr>"
  have b: "i*3+2 < length (gTree st0)" using assms by (simp add: st0_def)
  have e: "generate_gifts g = fold gift_body [0..<giftCount] st0"
    by (simp add: generate_gifts_def st0_def)
  note l = gift_loop_gTree [of giftCount st0]
  show "gTree (generate_gifts g) ! (i*3) = cos (gift_theta i) * gift_r i"
    and "gTree (generate_gifts g) ! (i*3+1) = gift_y i"
    and "gTree (generate_gifts g) ! (i*3+2) = sin (gift_theta i) * gift_r i"
    unfolding e using l assms b by blast+
  show "length (gTree (generate_gifts g)) = giftCount * 3"
    unfolding e using l by (simp add: st0_def)
qed

lemma memo_g_tree: "g_tree (giftData (useMemo_generate g)) = gTree (generate_gifts (o_rng (generate_ornaments (f_rng (generate_foliage g)))))"
  by (simp add: useMemo_generate_def Let_def)

lemma gift_theta_turns: "gift_theta i = real i * (5 * (2 * pi) / 25)"
  by (simp add: gift_theta_def giftCount_def)

lemma first_gift_cosines: "cos (gift_theta 1) > 0" "cos ((1 / 25) * (10 * (2 * pi))) < 0"
proof -
  have t: "gift_theta 1 = 2 * pi / 5" by (simp add: gift_theta_def giftCount_def)
  have "0 < cos (2 * pi / 5)" using pi_gt_zero by (intro cos_gt_zero) simp_all
  then show "cos (gift_theta 1) > 0" unfolding t .
  have u: "(1 / 25) * (10 * (2 * pi)) = pi - pi / 5" by simp
  have "0 < cos (pi / 5)" using pi_gt_zero by (intro cos_gt_zero) simp_all
  then show "cos ((1 / 25) * (10 * (2 * pi))) < 0" unfolding u cos_pi_minus by simp
qed

subsection \<open>Reads of the generated data\<close>

lemma layer_index_in_range:
  "nat \<lfloor>fst (Math_random g) * real (length layers)\<rfloor> < length layers"
proof -
  define u where "u = fst (Math_random g)"
  have u: "0 \<le> u" "u < 1" using Math_random_range [of g] by (simp_all add: u_def)
  have "u * 5 < 5" using u by simp
  then have "\<lfloor>u * 5\<rfloor> < 5" by linarith
  moreover have "0 \<le> \<lfloor>u * 5\<rfloor>" using u by simp
  ultimately have "nat \<lfloor>u * 5\<rfloor> < 5" by linarith
  then show ?thesis by (simp add: layers_def u_def)
qed

lemma gift_body_lengths:
  "length (gScatter (gift_body i st)) = length (gScatter st)"
  "length (gTree (gift_body i st)) = length (gTree st)"
  "length (gRotation (gift_body i st)) = length (gRotation st)"
  by (simp_all add: gift_body_def Let_def split: prod.splits)

lemma generate_gifts_lengths:
  "length (gScatter (generate_gifts g)) = giftCount * 3"
  "length (gTree (generate_gifts g)) = giftCount * 3"
  "length (gRotation (generate_gifts g)) = giftCount * 3"
  unfolding generate_gifts_def
  by (simp_all add: fold_keeps [where P = "\<lambda>st. length (gScatter st)"]
      fold_keeps [where P = "\<lambda>st. length (gTree st)"]
      fold_keeps [where P = "\<lambda>st. length (gRotation st)"] gift_body_lengths)

text \<open>
  The frame loops read the buffers of the generated data at \<open>i*3\<close>, \<open>i*3+1\<close> and
  \<open>i*3+2\<close> for \<open>i\<close> below the count of the population; these reads are inside the
  buffers.
\<close>

lemma generated_reads_in_range:
  "o_count (ornamentData (useMemo_generate g)) * 3 \<le>
     length (o_scatter (ornamentData (useMemo_generate g)))"
  "o_count (ornamentData (useMemo_generate g)) * 3 \<le>
     length (o_tree (ornamentData (useMemo_generate g)))"
  "g_count (giftData (useMemo_generate g)) * 3 = length (g_scatter (giftData (useMemo_generate g)))"
  "g_count (giftData (useMemo_generate g)) * 3 = length (g_tree (giftData (useMemo_generate g)))"
  "g_count (giftData (useMemo_generate g)) * 3 = length (g_rot (giftData (useMemo_generate g)))"
  by (simp_all add: useMemo_generate_def Let_def generate_ornaments_fill
      generate_gifts_lengths giftCount_def)

section \<open>The claims\<close>

subsection \<open>Generation\<close>

text \<open>
  Claim C10. For every radius \<open>r \<ge> 0\<close>, every vertical bias \<open>b\<close> and all draws
  (each in the interval from 0 to 1 by its type), the point returned by
  \<open>randomInSphere r b\<close> lies in the closed ball of radius \<open>r\<close> around \<open>(0, b, 0)\<close>.
\<close>

theorem sampler_point_within_radius:
  assumes "0 \<le> radius"
  shows "distanceTo (fst (randomInSphere radius biasY g)) \<lparr>vx = 0, vy = biasY, vz = 0\<rparr> \<le> radius"
proof -
  define w where "w = Rep_draw (g 2)"
  define r where "r = root 3 w * radius"
  have w: "0 \<le> w" "w < 1" using Rep_draw [of "g 2"] by (simp_all add: w_def)
  have r0: "0 \<le> r" using w assms by (simp add: r_def real_root_ge_zero)
  have "root 3 w \<le> 1" using w by simp
  then have "root 3 w * radius \<le> 1 * radius" using assms by (intro mult_right_mono) simp_all
  then have r1: "r \<le> radius" by (simp add: r_def)
  have "distanceTo (fst (randomInSphere radius biasY g)) \<lparr>vx = 0, vy = biasY, vz = 0\<rparr> =
          sqrt (r\<^sup>2)"
    by (simp add: randomInSphere_point Let_def distanceTo_def sphere_norm r_def w_def)
  also have "\<dots> = r" using r0 by simp
  finally show ?thesis using r1 by simp
qed

theorem sampler_point_within_radius_witness:
  "(0::real) \<le> 8 \<and>
   distanceTo (fst (randomInSphere 8 2 (const_rng (draw_of_ratio 1 2))))
     \<lparr>vx = 0, vy = 2, vz = 0\<rparr> \<le> 8"
  using sampler_point_within_radius [of 8 2 "const_rng (draw_of_ratio 1 2)"] by simp

text \<open>
  Claim C5. The five rings ask for 10, 14, 18, 22 and 26 ornaments under a cap of 120;
  the fill loops stop at the cap. The generated count is \<open>min 120 (10+14+18+22+26) = 90\<close>,
  and every element index the loops store at is below 120 (so the three buffer slots of
  that element lie inside both buffers).
\<close>

theorem ornament_population_is_ninety:
  "o_count (ornamentData (useMemo_generate g)) = 90 \<and>
   (90::nat) = min 120 (10 + 14 + 18 + 22 + 26) \<and>
   oIdx (generate_ornaments g) =
     min sphereCount (sum_list (map (\<lambda>i. 10 + i * 4) [0..<5])) \<and>
   (\<forall>k\<in>set (o_written (generate_ornaments g)).
      k < sphereCount \<and> k * 3 + 2 < length (oScatter (generate_ornaments g)) \<and>
      k * 3 + 2 < length (oTree (generate_ornaments g)))"
proof -
  have a: "o_count (ornamentData (useMemo_generate g)) = 90"
    by (simp add: useMemo_generate_def Let_def generate_ornaments_fill)
  have b: "oIdx (generate_ornaments g) =
      min sphereCount (sum_list (map (\<lambda>i. 10 + i * 4) [0..<5]))"
    unfolding ring_total by (simp add: generate_ornaments_fill sphereCount_def)
  have c: "\<forall>k\<in>set (o_written (generate_ornaments g)).
      k < sphereCount \<and> k * 3 + 2 < length (oScatter (generate_ornaments g)) \<and>
      k * 3 + 2 < length (oTree (generate_ornaments g))"
    by (simp add: generate_ornaments_fill sphereCount_def)
  show ?thesis using a b c by simp
qed

theorem ornament_population_is_ninety_witness:
  "89 \<in> set (o_written (generate_ornaments (const_rng (draw_of_ratio 1 2)))) \<and>
   (89::nat) < sphereCount \<and>
   o_count (ornamentData (useMemo_generate (const_rng (draw_of_ratio 1 2)))) = 90"
proof -
  have "89 \<in> set (o_written (generate_ornaments (const_rng (draw_of_ratio 1 2))))"
    by (simp add: generate_ornaments_fill)
  then show ?thesis
    using ornament_population_is_ninety [of "const_rng (draw_of_ratio 1 2)"] by blast
qed

text \<open>
  Claim C4, as stated: the azimuth of the gift spiral sweeps ten full turns across the index
  range. The loop multiplies the index fraction by \<open>pi * 10\<close>, which is five turns: already
  the second gift (index 1) sits at the angle \<open>2 * pi / 5\<close>, on the side of positive cosine,
  where the ten-turn spiral would put it at \<open>4 * pi / 5\<close>, on the side of negative cosine.
\<close>

theorem gift_spiral_is_not_ten_turns:
  "g_tree (giftData (useMemo_generate (const_rng (draw_of_ratio 1 2)))) ! (1 * 3) \<noteq>
     cos (spec_gift_theta 1) * gift_r 1"
proof -
  have r: "0 < gift_r 1" by (simp add: gift_r_def giftCount_def)
  have "1 < giftCount" by (simp add: giftCount_def)
  then have "g_tree (giftData (useMemo_generate (const_rng (draw_of_ratio 1 2)))) ! (1 * 3) =
      cos (gift_theta 1) * gift_r 1"
    unfolding memo_g_tree by (rule generate_gifts_gTree)
  moreover have "0 < cos (gift_theta 1) * gift_r 1"
    using r first_gift_cosines(1) by simp
  moreover have "cos (spec_gift_theta 1) * gift_r 1 < 0"
    using r first_gift_cosines(2) by (simp add: spec_gift_theta_def giftCount_def mult_neg_pos)
  ultimately show ?thesis by linarith
qed

text \<open>
  Claim C4, amended: for every gift index \<open>i\<close> below 25 the generated tree position is
  the point of a spiral whose azimuth grows linearly with \<open>i\<close> and sweeps five full turns
  (\<open>5 * (2 * pi)\<close> radians) across the index range, whose height rises linearly from -1.5
  over a span of 4.5, and whose radius shrinks linearly from 2.4 by the factor 0.8.
\<close>

theorem gift_targets_on_five_turn_spiral:
  assumes "i < giftCount"
  shows "g_tree (giftData (useMemo_generate g)) ! (i * 3) = cos (gift_theta i) * gift_r i \<and>
         g_tree (giftData (useMemo_generate g)) ! (i * 3 + 1) = gift_y i \<and>
         g_tree (giftData (useMemo_generate g)) ! (i * 3 + 2) = sin (gift_theta i) * gift_r i \<and>
         gift_theta i = (real i / 25) * (5 * (2 * pi)) \<and>
         gift_y i = -1.5 + (real i / 25) * 4.5 \<and>
         gift_r i = 2.4 - (real i / 25) * (2.4 * 0.8)"
proof -
  have "gift_theta i = (real i / 25) * (5 * (2 * pi))"
    by (simp add: gift_theta_def giftCount_def)
  moreover have "gift_y i = -1.5 + (real i / 25) * 4.5"
    by (simp add: gift_y_def giftCount_def)
  moreover have "gift_r i = 2.4 - (real i / 25) * (2.4 * 0.8)"
    by (simp add: gift_r_def giftCount_def algebra_simps)
  ultimately show ?thesis
    unfolding memo_g_tree using generate_gifts_gTree(1,2,3) [OF assms] by blast
qed

theorem gift_targets_on_five_turn_spiral_witness:
  "(24::nat) < giftCount \<and>
   g_tree (giftData (useMemo_generate (const_rng (draw_of_ratio 1 2)))) ! (24 * 3 + 1) = 2.82 \<and>
   gift_theta 24 = (24 / 25) * (5 * (2 * pi))"
proof -
  have a: "(24::nat) < giftCount" by (simp add: giftCount_def)
  show ?thesis
    using a gift_targets_on_five_turn_spiral [OF a, of "const_rng (draw_of_ratio 1 2)"]
    by simp
qed

subsection \<open>The progress scheduler\<close>

text \<open>
  Claim C1, as stated: for arbitrary non-negative frame deltas the progress value stays in
  the unit interval and never passes its target. The update is a linear interpolation by
  \<open>delta * 2\<close>, with no clamp: a frame that took one second, right after the toggle to
  SCATTERED, moves progress from 1 to -1, below the target 0 and out of the interval.
\<close>

theorem progress_overshoots_on_long_frame:
  "(0::real) \<le> delta \<lparr>config = toggled_config, elapsedTime = 1, delta = 1\<rparr> \<and>
   progress (MorphingTree_mount (const_rng (draw_of_ratio 1 2))) = 1 \<and>
   targetProgress (morphState (config \<lparr>config = toggled_config, elapsedTime = 1, delta = 1\<rparr>)) = 0 \<and>
   progress (useFrame \<lparr>config = toggled_config, elapsedTime = 1, delta = 1\<rparr>
     (MorphingTree_mount (const_rng (draw_of_ratio 1 2)))) = -1"
  by (simp add: useFrame_progress mount_progress lerp_def targetProgress_def
      toggled_config_def App_config_def)

text \<open>
  Claim C1, amended: for every sequence of frame updates whose deltas lie between 0 and
  half a second, with any sequence of morph states, from a progress value in the unit
  interval: at every frame of the sequence the new progress value is in the unit interval,
  its distance to the target of that frame is not larger than before the frame, and it is
  on the same side of that target as before the frame.
\<close>

theorem progress_stays_and_approaches:
  assumes "0 \<le> progress s" "progress s \<le> 1"
    and "\<forall>f\<in>set fs. 0 \<le> delta f \<and> delta f \<le> 1/2"
  shows "\<forall>n<length fs.
           (let sn = run_frames (take n fs) s;
                T = targetProgress (morphState (config (fs ! n)));
                p = progress sn;
                p' = progress (useFrame (fs ! n) sn)
            in 0 \<le> p' \<and> p' \<le> 1 \<and> \<bar>T - p'\<bar> \<le> \<bar>T - p\<bar> \<and>
               (p \<le> T \<longrightarrow> p' \<le> T) \<and> (T \<le> p \<longrightarrow> T \<le> p'))"
proof (intro allI impI)
  fix n assume n: "n < length fs"
  define sn where "sn = run_frames (take n fs) s"
  have d: "0 \<le> delta (fs ! n)" "delta (fs ! n) \<le> 1/2"
    using assms(3) n by simp_all
  have "\<forall>f\<in>set (take n fs). 0 \<le> delta f \<and> delta f \<le> 1/2"
    using assms(3) by (meson in_set_takeD)
  then have p: "0 \<le> progress sn \<and> progress sn \<le> 1"
    unfolding sn_def using assms(1,2) by (intro run_frames_unit) simp_all
  have "0 \<le> progress (useFrame (fs ! n) sn) \<and> progress (useFrame (fs ! n) sn) \<le> 1"
    using p d by (intro useFrame_unit) simp_all
  then show "let sn = run_frames (take n fs) s;
                T = targetProgress (morphState (config (fs ! n)));
                p = progress sn;
                p' = progress (useFrame (fs ! n) sn)
            in 0 \<le> p' \<and> p' \<le> 1 \<and> \<bar>T - p'\<bar> \<le> \<bar>T - p\<bar> \<and>
               (p \<le> T \<longrightarrow> p' \<le> T) \<and> (T \<le> p \<longrightarrow> T \<le> p')"
    using lerp_approach [OF d] by (simp add: Let_def sn_def [symmetric] useFrame_progress)
qed

theorem progress_stays_and_approaches_witness:
  "progress (MorphingTree_mount (const_rng (draw_of_ratio 1 2))) = 1 \<and>
   delta \<lparr>config = toggled_config, elapsedTime = 1/4, delta = 1/4\<rparr> \<le> 1/2 \<and>
   delta \<lparr>config = App_config, elapsedTime = 3/4, delta = 1/2\<rparr> \<le> 1/2 \<and>
   progress (useFrame \<lparr>config = toggled_config, elapsedTime = 1/4, delta = 1/4\<rparr>
     (MorphingTree_mount (const_rng (draw_of_ratio 1 2)))) = 1/2 \<and>
   0 \<le> progress (useFrame \<lparr>config = App_config, elapsedTime = 3/4, delta = 1/2\<rparr>
         (useFrame \<lparr>config = toggled_config, elapsedTime = 1/4, delta = 1/4\<rparr>
           (MorphingTree_mount (const_rng (draw_of_ratio 1 2))))) \<and>
   progress (useFrame \<lparr>config = App_config, elapsedTime = 3/4, delta = 1/2\<rparr>
         (useFrame \<lparr>config = toggled_config, elapsedTime = 1/4, delta = 1/4\<rparr>
           (MorphingTree_mount (const_rng (draw_of_ratio 1 2))))) \<le> 1"
proof -
  let ?s = "MorphingTree_mount (const_rng (draw_of_ratio 1 2))"
  let ?f1 = "\<lparr>config = toggled_config, elapsedTime = 1/4, delta = 1/4\<rparr>"
  let ?f2 = "\<lparr>config = App_config, elapsedTime = 3/4, delta = 1/2\<rparr>"
  have a: "0 \<le> progress ?s" and b: "progress ?s \<le> 1" by (simp_all add: mount_progress)
  have c: "\<forall>f\<in>set [?f1, ?f2]. 0 \<le> delta f \<and> delta f \<le> 1/2" by simp
  have "Suc 0 < length [?f1, ?f2]" by simp
  with progress_stays_and_approaches [OF a b c]
  have "let sn = run_frames (take (Suc 0) [?f1, ?f2]) ?s;
            T = targetProgress (morphState (config ([?f1, ?f2] ! Suc 0)));
            p = progress sn;
            p' = progress (useFrame ([?f1, ?f2] ! Suc 0) sn)
        in 0 \<le> p' \<and> p' \<le> 1 \<and> \<bar>T - p'\<bar> \<le> \<bar>T - p\<bar> \<and>
           (p \<le> T \<longrightarrow> p' \<le> T) \<and> (T \<le> p \<longrightarrow> T \<le> p')"
    by blast
  then have "0 \<le> progress (useFrame ?f2 (useFrame ?f1 ?s)) \<and>
             progress (useFrame ?f2 (useFrame ?f1 ?s)) \<le> 1"
    by (simp add: Let_def)
  moreover have "progress (useFrame ?f1 ?s) = 1/2"
    by (simp add: useFrame_progress mount_progress lerp_def targetProgress_def
        toggled_config_def App_config_def)
  ultimately show ?thesis by (simp add: mount_progress)
qed

text \<open>
  Claim C2, as stated: two consecutive updates with elapsed times \<open>d1\<close> and \<open>d2\<close> give
  the same progress as one update with \<open>d1 + d2\<close>, and the update is the exponential form
  with rate 2. From progress 1 towards target 0, two quarter-second frames give 1/4 where
  one half-second frame gives 0; and the half-second frame gives 0 where the exponential
  form gives \<open>exp (-1)\<close>.
\<close>

theorem progress_update_depends_on_frame_split:
  "progress (run_frames [\<lparr>config = toggled_config, elapsedTime = 1/4, delta = 1/4\<rparr>,
                         \<lparr>config = toggled_config, elapsedTime = 1/2, delta = 1/4\<rparr>]
      (MorphingTree_mount (const_rng (draw_of_ratio 1 2)))) = 1/4 \<and>
   progress (useFrame \<lparr>config = toggled_config, elapsedTime = 1/2, delta = 1/4 + 1/4\<rparr>
      (MorphingTree_mount (const_rng (draw_of_ratio 1 2)))) = 0 \<and>
   progress (useFrame \<lparr>config = toggled_config, elapsedTime = 1/2, delta = 1/2\<rparr>
      (MorphingTree_mount (const_rng (draw_of_ratio 1 2)))) \<noteq>
     1 + (0 - 1) * (1 - exp (- 2.0 * (1/2)))"
  by (simp add: useFrame_progress mount_progress lerp_def targetProgress_def
      toggled_config_def App_config_def)

text \<open>
  Claim C2, amended: the per-frame update is the linear form
  \<open>progress += (target - progress) * (rate * dt)\<close> with the rate constant 2.0 per second,
  which depends on how the elapsed time is split into frames: for a fixed target, two
  consecutive updates with elapsed times \<open>d1\<close> and \<open>d2\<close> end
  \<open>4 * d1 * d2 * (target - progress)\<close> short of one update with elapsed time \<open>d1 + d2\<close>.
\<close>

theorem progress_update_is_linear_in_delta:
  "progress (useFrame f s) =
     progress s + (targetProgress (morphState (config f)) - progress s) * (2.0 * delta f) \<and>
   progress (run_frames [\<lparr>config = c, elapsedTime = e1, delta = d1\<rparr>,
                         \<lparr>config = c, elapsedTime = e2, delta = d2\<rparr>] s) =
     progress (useFrame \<lparr>config = c, elapsedTime = e2, delta = d1 + d2\<rparr> s)
       - 4 * d1 * d2 * (targetProgress (morphState c) - progress s)"
  using linear_form [of f s] two_step [of c e1 d1 e2 d2 s] by simp

text \<open>
  Claim C7. From progress 1 with the morph state toggled to SCATTERED, after 300 updates
  of 1/60 second each, progress is within 0.001 of 0.
\<close>

theorem scattered_after_five_seconds:
  assumes "progress s = 1" "length fs = 300"
    and "\<forall>f\<in>set fs. morphState (config f) = SCATTERED \<and> delta f = 1/60"
  shows "\<bar>progress (run_frames fs s) - 0\<bar> \<le> 1/1000"
proof -
  have "progress (run_frames fs s) = (29/30) ^ 300"
    using run_frames_uniform [OF assms(3), of s] assms(1,2) by (simp add: targetProgress_def)
  then show ?thesis using decay_300 by simp
qed

theorem scattered_after_five_seconds_witness:
  "progress (MorphingTree_mount (const_rng (draw_of_ratio 1 2))) = 1 \<and>
   length (sixty_fps toggled_config 300) = 300 \<and>
   morphState toggled_config = SCATTERED \<and>
   \<bar>progress (run_frames (sixty_fps toggled_config 300)
       (MorphingTree_mount (const_rng (draw_of_ratio 1 2)))) - 0\<bar> \<le> 1/1000"
proof -
  have a: "progress (MorphingTree_mount (const_rng (draw_of_ratio 1 2))) = 1"
    by (simp add: mount_progress)
  have b: "length (sixty_fps toggled_config 300) = 300" by (simp add: sixty_fps_def)
  have c: "\<forall>f\<in>set (sixty_fps toggled_config 300).
      morphState (config f) = SCATTERED \<and> delta f = 1/60"
    by (simp add: sixty_fps_def toggled_config_def)
  have d: "morphState toggled_config = SCATTERED" by (simp add: toggled_config_def)
  show ?thesis using a b d scattered_after_five_seconds [OF a b c] by simp
qed

subsection \<open>The interpolators\<close>

text \<open>
  Claim C3, as stated: the heavy blend factor \<open>effectiveT\<close> is at most the light blend
  factor \<open>smoothT\<close>, and equals it once \<open>smoothT\<close> exceeds about 0.91. At progress 1 the
  light factor is 1 and the heavy factor is \<open>(1 - 0.1) * 1.1 = 0.99\<close>: the rescaled value
  never reaches the upper clamp, and the two factors differ.
\<close>

theorem heavy_blend_differs_when_assembled:
  "smoothT 1 > 0.91 \<and> effectiveT (smoothT 1) \<noteq> smoothT 1"
  by (simp add: effectiveT_def heavyT_def clamp_def smoothT_def)

text \<open>
  Claim C3, amended: for every progress value \<open>t\<close> in the unit interval,
  \<open>effectiveT \<le> smoothT\<close> holds, with equality only at \<open>t = 0\<close> (where both are 0);
  the heavy factor never exceeds 0.99, its value at full assembly.
\<close>

theorem heavy_blend_lags_light_blend:
  assumes "0 \<le> t" "t \<le> 1"
  shows "effectiveT (smoothT t) \<le> smoothT t \<and>
         (effectiveT (smoothT t) = smoothT t \<longleftrightarrow> t = 0) \<and>
         effectiveT (smoothT t) \<le> 0.99 \<and> effectiveT (smoothT 1) = 0.99"
proof -
  have "effectiveT (smoothT 1) = 0.99"
    by (simp add: effectiveT_def heavyT_def clamp_def smoothT_def)
  then show ?thesis
    using effectiveT_props [of "smoothT t"] smoothT_unit [OF assms] smoothT_zero_iff [OF assms]
    by simp
qed

theorem heavy_blend_lags_light_blend_witness:
  "(0::real) \<le> 1/2 \<and> (1/2::real) \<le> 1 \<and> effectiveT (smoothT (1/2)) \<le> smoothT (1/2) \<and>
   effectiveT (smoothT (1/2)) \<noteq> smoothT (1/2)"
  using heavy_blend_lags_light_blend [of "1/2"] by simp

text \<open>
  Claim C6. For every gift, whenever the progress value of the frame is at least 0.99 (in
  particular at progress 1), the frame stores an instance matrix whose rotation is zero on
  all three axes.
\<close>

theorem assembled_gifts_have_zero_rotation:
  assumes "giftsRef s = Some mesh" "0.99 \<le> progress (useFrame f s)"
    "i < g_count (giftData (memo s))" "i < length (instanceMatrix mesh)"
  shows "\<exists>mesh'. giftsRef (useFrame f s) = Some mesh' \<and>
           m_rotation (instanceMatrix mesh' ! i) = \<lparr>ex = 0, ey = 0, ez = 0\<rparr>"
proof -
  define t where "t = progress (useFrame f s)"
  define s4 where "s4 = update_spheres f t (smoothT t)
         (update_foliage f t (progress_step f (rotation_step f s)))"
  have nt: "\<not> t < 0.99" using assms(2) by (simp add: t_def)
  have g: "giftsRef s4 = Some mesh"
    using assms(1) by (simp add: s4_def update_spheres_giftsRef update_foliage_giftsRef
        progress_step_giftsRef rotation_step_giftsRef)
  have m: "memo s4 = memo s"
    by (simp add: s4_def update_spheres_memo update_foliage_memo progress_step_memo
        rotation_step_memo)
  have e: "useFrame f s = update_gifts f t (smoothT t) s4"
    unfolding s4_def t_def by (rule useFrame_gifts)
  show ?thesis unfolding e
    using update_gifts_settled [OF nt g, of i f "smoothT t"] assms(3,4) m by simp
qed

theorem assembled_gifts_have_zero_rotation_witness:
  "giftsRef (MorphingTree_mount (const_rng (draw_of_ratio 1 2))) =
     Some \<lparr>instanceMatrix = replicate 25 identity_matrix, needsUpdate = False\<rparr> \<and>
   progress (useFrame \<lparr>config = App_config, elapsedTime = 1, delta = 1/60\<rparr>
             (MorphingTree_mount (const_rng (draw_of_ratio 1 2)))) = 1 \<and>
   (24::nat) < g_count (giftData (memo (MorphingTree_mount (const_rng (draw_of_ratio 1 2))))) \<and>
   (\<exists>mesh'. giftsRef (useFrame \<lparr>config = App_config, elapsedTime = 1, delta = 1/60\<rparr>
                (MorphingTree_mount (const_rng (draw_of_ratio 1 2)))) = Some mesh' \<and>
      m_rotation (instanceMatrix mesh' ! 24) = \<lparr>ex = 0, ey = 0, ez = 0\<rparr>)"
proof -
  let ?s = "MorphingTree_mount (const_rng (draw_of_ratio 1 2))"
  let ?f = "\<lparr>config = App_config, elapsedTime = 1, delta = 1/60\<rparr>"
  have a: "giftsRef ?s =
      Some \<lparr>instanceMatrix = replicate 25 identity_matrix, needsUpdate = False\<rparr>"
    by (rule mount_gifts)
  have p: "progress (useFrame ?f ?s) = 1"
    by (simp add: useFrame_progress mount_progress lerp_def targetProgress_def App_config_def)
  then have b: "0.99 \<le> progress (useFrame ?f ?s)" by simp
  have c: "24 < g_count (giftData (memo ?s))" by (simp add: mount_gifts)
  have d: "24 < length (instanceMatrix
      \<lparr>instanceMatrix = replicate 25 identity_matrix, needsUpdate = False\<rparr>)"
    by simp
  show ?thesis using a p c assembled_gifts_have_zero_rotation [OF a b c d] by simp
qed

subsection \<open>Rotation of the assembly\<close>

text \<open>
  Claim C8. Each frame adds \<open>delta * rotationSpeed * m\<close> to the yaw of the group, where
  \<open>m\<close> is 0.2 when the morph state is SCATTERED and 1.0 when it is TREE_SHAPE. The
  increment is stated in terms of the frame input alone: the progress value of the scene
  does not occur in it.
\<close>

theorem yaw_increment_follows_flag:
  assumes "groupRef s = Some rot"
  shows "\<exists>rot'. groupRef (useFrame f s) = Some rot' \<and> ex rot' = ex rot \<and> ez rot' = ez rot \<and>
           ey rot' - ey rot =
             delta f * rotationSpeed (config f) *
               (case morphState (config f) of SCATTERED \<Rightarrow> 0.2 | TREE_SHAPE \<Rightarrow> 1.0)"
  using assms by (cases "morphState (config f)") (simp_all add: useFrame_groupRef rotation_step_def)

theorem yaw_increment_follows_flag_witness:
  "groupRef (MorphingTree_mount (const_rng (draw_of_ratio 1 2))) =
     Some \<lparr>ex = 0, ey = 0, ez = 0\<rparr> \<and>
   (\<exists>rot'. groupRef (useFrame \<lparr>config = toggled_config, elapsedTime = 1, delta = 1/60\<rparr>
        (MorphingTree_mount (const_rng (draw_of_ratio 1 2)))) = Some rot' \<and> ey rot' = 1/1000)"
proof -
  have a: "groupRef (MorphingTree_mount (const_rng (draw_of_ratio 1 2))) =
      Some \<lparr>ex = 0, ey = 0, ez = 0\<rparr>"
    by (rule mount_groupRef)
  show ?thesis
    using a yaw_increment_follows_flag [OF a,
        of "\<lparr>config = toggled_config, elapsedTime = 1, delta = 1/60\<rparr>"]
    by (auto simp: toggled_config_def App_config_def)
qed

subsection \<open>The endpoint buffers\<close>

text \<open>
  Claim C9. The frame callback never stores into the memoised data: after any number of
  frames, under any sequence of configurations, the scatter and target buffers of the
  particle field, of the ornaments and of the gifts are entry for entry what the
  generation produced.
\<close>

theorem endpoint_buffers_frozen:
  "memo (run_frames fs s) = memo s \<and>
   position (pointsGeometry (memo (run_frames fs (MorphingTree_mount g)))) =
     position (pointsGeometry (useMemo_generate g)) \<and>
   aTargetPos (pointsGeometry (memo (run_frames fs (MorphingTree_mount g)))) =
     aTargetPos (pointsGeometry (useMemo_generate g)) \<and>
   o_scatter (ornamentData (memo (run_frames fs (MorphingTree_mount g)))) =
     o_scatter (ornamentData (useMemo_generate g)) \<and>
   o_tree (ornamentData (memo (run_frames fs (MorphingTree_mount g)))) =
     o_tree (ornamentData (useMemo_generate g)) \<and>
   g_scatter (giftData (memo (run_frames fs (MorphingTree_mount g)))) =
     g_scatter (giftData (useMemo_generate g)) \<and>
   g_tree (giftData (memo (run_frames fs (MorphingTree_mount g)))) =
     g_tree (giftData (useMemo_generate g))"
proof -
  have "memo (MorphingTree_mount g) = useMemo_generate g"
    by (simp add: MorphingTree_mount_def Let_def)
  then show ?thesis by (simp add: run_frames_memo)
qed

end
